theory Spec2Isabelle
  imports Complex_Main
begin

section \<open>NASDAQ breakout bot: the model\<close>

text \<open>
  A shallow embedding of \<^verbatim>\<open>modules/opening_range_breakout.py\<close>,
  \<^verbatim>\<open>modules/risk_manager.py\<close> and \<^verbatim>\<open>modules/order_manager.py\<close>.

  Conventions of the embedding:
  \<^item> a Python \<^verbatim>\<open>float\<close> is a \<^typ>\<open>real\<close>: arithmetic is exact, so IEEE-754 rounding,
    infinities and NaN are outside the model;
  \<^item> a Python \<^verbatim>\<open>int\<close> is an \<^typ>\<open>int\<close>; \<^verbatim>\<open>Optional[t]\<close> is \<^typ>\<open>'a option\<close>;
  \<^item> a raised exception is the \<open>Inl\<close> branch of a sum;
  \<^item> a method that mutates \<^verbatim>\<open>self\<close> takes the object and returns the updated one;
  \<^item> \<^verbatim>\<open>date.today()\<close>, \<^verbatim>\<open>datetime.now()\<close> and the outcome of writing the data file
    come from an explicit environment argument;
  \<^item> logging has no effect on any result and is left out, except for the
    \<^verbatim>\<open>logger.error\<close> calls of the two persistence handlers of the risk manager.
\<close>

subsection \<open>Exceptions\<close>

text \<open>
  The built-in exceptions the modelled code can raise. \<^verbatim>\<open>calculate_breakout_levels\<close>
  raises \<^verbatim>\<open>ValueError\<close> for an invalid range and re-raises it unchanged;
  \<^verbatim>\<open>OSError\<close> stands for any failure of opening or writing the data file.
\<close>

datatype py_exn = ValueError | ZeroDivisionError | OSError

text \<open>Float division \<^verbatim>\<open>a / b\<close>: raises \<^verbatim>\<open>ZeroDivisionError\<close> when \<^verbatim>\<open>b == 0\<close>.\<close>

definition py_truediv :: "real \<Rightarrow> real \<Rightarrow> py_exn + real" where
  "py_truediv a b = (if b = 0 then Inl ZeroDivisionError else Inr (a / b))"

text \<open>\<^verbatim>\<open>int(x)\<close> on a float truncates towards zero.\<close>

definition py_int :: "real \<Rightarrow> int" where
  "py_int x = (if 0 \<le> x then \<lfloor>x\<rfloor> else \<lceil>x\<rceil>)"

subsection \<open>Opening range breakout strategy\<close>

record strategy_config =
  breakout_offset_points :: real
  stop_loss_points :: real
  risk_reward_ratio :: real
  min_range_size :: real
  max_range_size :: real
  use_dynamic_stops :: bool
  dynamic_stop_multiplier :: real

text \<open>The dataclass defaults of \<^verbatim>\<open>StrategyConfig\<close>.\<close>

definition default_strategy_config :: strategy_config where
  "default_strategy_config =
     \<lparr>breakout_offset_points = 15, stop_loss_points = 25, risk_reward_ratio = 2,
      min_range_size = 5, max_range_size = 100, use_dynamic_stops = False,
      dynamic_stop_multiplier = 3 / 2\<rparr>"

record breakout_levels =
  opening_high :: real
  opening_low :: real
  range_size :: real
  long_entry :: real
  short_entry :: real
  long_stop_loss :: real
  short_stop_loss :: real
  long_take_profit :: real
  short_take_profit :: real
  position_size :: int

text \<open>\<^verbatim>\<open>_calculate_stop_distance(range_size: Optional[float] = None)\<close>.\<close>

definition calculate_stop_distance :: "strategy_config \<Rightarrow> real option \<Rightarrow> real" where
  "calculate_stop_distance config rs =
     (case rs of
        Some r \<Rightarrow>
          (if use_dynamic_stops config
           then (let dynamic_stop = r * dynamic_stop_multiplier config
                 in max (min dynamic_stop 50) 15)
           else stop_loss_points config)
      | None \<Rightarrow> stop_loss_points config)"

text \<open>\<^verbatim>\<open>_is_valid_range\<close>: the chained comparison \<^verbatim>\<open>min < range_size <= max\<close>.\<close>

definition is_valid_range :: "strategy_config \<Rightarrow> real \<Rightarrow> bool" where
  "is_valid_range config r \<longleftrightarrow> min_range_size config < r \<and> r \<le> max_range_size config"

definition calculate_breakout_levels ::
  "strategy_config \<Rightarrow> real \<Rightarrow> real \<Rightarrow> py_exn + breakout_levels" where
  "calculate_breakout_levels config hi lo =
     (let r = hi - lo in
      if \<not> is_valid_range config r then Inl ValueError
      else
        (let le = hi + breakout_offset_points config;
             se = lo - breakout_offset_points config;
             stop_distance = calculate_stop_distance config (Some r);
             lsl = le - stop_distance;
             ssl = se + stop_distance;
             take_profit_distance = stop_distance * risk_reward_ratio config;
             ltp = le + take_profit_distance;
             stp = se - take_profit_distance
         in Inr \<lparr>opening_high = hi, opening_low = lo, range_size = r,
                 long_entry = le, short_entry = se,
                 long_stop_loss = lsl, short_stop_loss = ssl,
                 long_take_profit = ltp, short_take_profit = stp,
                 position_size = 0\<rparr>))"

subsection \<open>Risk manager: data\<close>

text \<open>
  A calendar date is its day number, a \<^verbatim>\<open>datetime\<close> is a count of microseconds;
  \<^verbatim>\<open>timedelta(days=30)\<close> is \<open>thirty_days\<close>.
\<close>

type_synonym date = int
type_synonym datetime = int

definition thirty_days :: int where
  "thirty_days = 30 * 86400 * 1000000"

record trade_result =
  timestamp :: datetime
  pnl :: real
  symbol :: string
  quantity :: int
  entry_price :: real
  exit_price :: real

text \<open>
  The JSON object of \<^verbatim>\<open>data/risk_manager_data.json\<close>. Every key is read with
  \<^verbatim>\<open>data.get\<close>, so every key may be absent (\<open>None\<close>); an absent or null
  \<^verbatim>\<open>current_date\<close> is falsy. The entries of \<^verbatim>\<open>trade_history\<close> are taken to be
  well formed.
\<close>

record saved_data =
  current_date_json :: "date option"
  daily_pnl_json :: "real option"
  trades_today_json :: "int option"
  trade_history_json :: "trade_result list option"

text \<open>
  The data file: absent, present but not readable as JSON (\<^verbatim>\<open>json.load\<close> raises), or
  holding a JSON object.
\<close>

datatype data_file = NoFile | Unreadable | Json saved_data

text \<open>
  What a call reads from outside: \<^verbatim>\<open>date.today()\<close>, \<^verbatim>\<open>datetime.now()\<close>, and
  whether opening and writing the data file succeeds during the call.
\<close>

record env =
  today :: date
  now :: datetime
  disk_writable :: bool

text \<open>
  The \<^verbatim>\<open>RiskManager\<close> object: the four constructor parameters and the daily tracking
  fields. Two fields are added by the model: \<open>data_file\<close> is the content of the data
  file, and \<open>error_log\<close> collects the \<^verbatim>\<open>logger.error\<close> messages of the two
  persistence handlers \<^verbatim>\<open>_save_daily_data\<close> and \<^verbatim>\<open>_load_daily_data\<close>
  (no other logging is modelled).
\<close>

record risk_manager =
  max_daily_loss_percent :: real
  max_trades_per_day :: int
  default_risk_percent :: real
  point_value :: real
  current_date :: "date option"
  daily_pnl :: real
  trades_today :: int
  trade_history :: "trade_result list"
  data_file :: data_file
  error_log :: "string list"

datatype risk_error = RiskLimitExceeded py_exn

subsection \<open>Risk manager: position sizing\<close>

text \<open>
  The body of the \<^verbatim>\<open>try\<close> block of \<^verbatim>\<open>calculate_position_size\<close>. The two
  divisions by \<^verbatim>\<open>account_equity\<close> that only feed log messages are kept, because
  they raise \<^verbatim>\<open>ZeroDivisionError\<close> at zero equity.
\<close>

definition position_size_try ::
  "risk_manager \<Rightarrow> real \<Rightarrow> real \<Rightarrow> real \<Rightarrow> real option \<Rightarrow> py_exn + int" where
  "position_size_try rm account_equity entry stop risk_percent =
     (let rp = (case risk_percent of None \<Rightarrow> default_risk_percent rm | Some p \<Rightarrow> p);
          risk_budget = account_equity * rp;
          price_risk = \<bar>entry - stop\<bar>;
          monetary_risk_per_unit = price_risk * point_value rm
      in if monetary_risk_per_unit \<le> 0 then Inl ValueError
         else
           (case py_truediv risk_budget monetary_risk_per_unit of
              Inl e \<Rightarrow> Inl e
            | Inr raw_position_size \<Rightarrow>
                (let size0 = py_int raw_position_size in
                 case (if size0 < 1
                       then (case py_truediv monetary_risk_per_unit account_equity of
                               Inl e \<Rightarrow> Inl e
                             | Inr actual_risk_percent \<Rightarrow> Inr 1)
                       else Inr size0) of
                   Inl e \<Rightarrow> Inl e
                 | Inr size1 \<Rightarrow>
                     (case py_truediv (of_int size1 * monetary_risk_per_unit)
                             account_equity of
                        Inl e \<Rightarrow> Inl e
                      | Inr actual_risk_percent \<Rightarrow> Inr size1))))"

text \<open>The \<^verbatim>\<open>except Exception\<close> handler turns every exception into \<^verbatim>\<open>RiskLimitExceeded\<close>.\<close>

definition calculate_position_size ::
  "risk_manager \<Rightarrow> real \<Rightarrow> real \<Rightarrow> real \<Rightarrow> real option \<Rightarrow> risk_error + int" where
  "calculate_position_size rm account_equity entry stop risk_percent =
     (case position_size_try rm account_equity entry stop risk_percent of
        Inl e \<Rightarrow> Inl (RiskLimitExceeded e)
      | Inr n \<Rightarrow> Inr n)"

text \<open>The risk manager of the test fixtures: 2 percent, 2 trades, 0.5 percent, 5 per point.\<close>

definition fixture_risk_manager :: risk_manager where
  "fixture_risk_manager =
     \<lparr>max_daily_loss_percent = 2 / 100, max_trades_per_day = 2,
      default_risk_percent = 5 / 1000, point_value = 5,
      current_date = None, daily_pnl = 0, trades_today = 0, trade_history = [],
      data_file = NoFile, error_log = []\<rparr>"

subsection \<open>Risk manager: persistence and day rollover\<close>

text \<open>
  \<^verbatim>\<open>open(path, 'w')\<close> followed by \<^verbatim>\<open>json.dump\<close>: on success the file holds the
  new object; a failure is modelled as leaving the file as it was.
\<close>

definition write_data_file :: "env \<Rightarrow> saved_data \<Rightarrow> data_file \<Rightarrow> py_exn + data_file" where
  "write_data_file e d f = (if disk_writable e then Inr (Json d) else Inl OSError)"

text \<open>
  \<^verbatim>\<open>_save_daily_data\<close>: builds the object from the in-memory fields and writes it;
  the handler logs the exception and returns normally.
\<close>

definition save_daily_data :: "env \<Rightarrow> risk_manager \<Rightarrow> risk_manager" where
  "save_daily_data e rm =
     (let d = \<lparr>current_date_json = current_date rm,
                daily_pnl_json = Some (daily_pnl rm),
                trades_today_json = Some (trades_today rm),
                trade_history_json = Some (trade_history rm)\<rparr>
      in case write_data_file e d (data_file rm) of
           Inr f \<Rightarrow> rm\<lparr>data_file := f\<rparr>
         | Inl ex \<Rightarrow> rm\<lparr>error_log := error_log rm @ [''Error saving daily data'']\<rparr>)"

text \<open>
  \<^verbatim>\<open>reset_daily_limits\<close>: zeroes the counters, keeps the trades younger than 30 days
  and saves.
\<close>

definition reset_daily_limits :: "env \<Rightarrow> risk_manager \<Rightarrow> risk_manager" where
  "reset_daily_limits e rm =
     (let rm1 = rm\<lparr>current_date := Some (today e), daily_pnl := 0, trades_today := 0\<rparr>;
          cutoff_date = now e - thirty_days;
          rm2 = rm1\<lparr>trade_history :=
                  filter (\<lambda>trade. timestamp trade > cutoff_date) (trade_history rm1)\<rparr>
      in save_daily_data e rm2)"

definition ensure_current_date :: "env \<Rightarrow> risk_manager \<Rightarrow> risk_manager" where
  "ensure_current_date e rm =
     (if current_date rm \<noteq> Some (today e) then reset_daily_limits e rm else rm)"

text \<open>
  \<^verbatim>\<open>_load_daily_data\<close>: nothing is read when the file is absent, when it cannot be
  parsed (logged), when it has no date, or when its date is not today's.
\<close>

definition load_daily_data :: "env \<Rightarrow> risk_manager \<Rightarrow> risk_manager" where
  "load_daily_data e rm =
     (case data_file rm of
        NoFile \<Rightarrow> rm
      | Unreadable \<Rightarrow> rm\<lparr>error_log := error_log rm @ [''Error loading daily data'']\<rparr>
      | Json d \<Rightarrow>
          (case current_date_json d of
             None \<Rightarrow> rm
           | Some saved_date \<Rightarrow>
               if saved_date = today e
               then rm\<lparr>current_date := Some saved_date,
                       daily_pnl := (case daily_pnl_json d of None \<Rightarrow> 0 | Some p \<Rightarrow> p),
                       trades_today := (case trades_today_json d of None \<Rightarrow> 0 | Some n \<Rightarrow> n),
                       trade_history :=
                         (case trade_history_json d of None \<Rightarrow> [] | Some h \<Rightarrow> h)\<rparr>
               else rm))"

text \<open>
  \<^verbatim>\<open>RiskManager.__init__\<close>: stores the parameters, zeroes the daily tracking, then
  loads the data file \<open>f\<close> found on disk.
\<close>

definition risk_manager_init ::
  "env \<Rightarrow> data_file \<Rightarrow> real \<Rightarrow> int \<Rightarrow> real \<Rightarrow> real \<Rightarrow> risk_manager" where
  "risk_manager_init e f mdlp mtpd drp pv =
     load_daily_data e
       \<lparr>max_daily_loss_percent = mdlp, max_trades_per_day = mtpd,
        default_risk_percent = drp, point_value = pv,
        current_date = None, daily_pnl = 0, trades_today = 0, trade_history = [],
        data_file = f, error_log = []\<rparr>"

subsection \<open>Risk manager: limit checks and recording\<close>

definition check_daily_loss ::
  "env \<Rightarrow> risk_manager \<Rightarrow> real \<Rightarrow> real option \<Rightarrow> bool \<times> risk_manager" where
  "check_daily_loss e rm account_equity potential_loss =
     (let rm1 = ensure_current_date e rm;
          max_daily_loss = account_equity * max_daily_loss_percent rm1;
          current_loss = \<bar>min 0 (daily_pnl rm1)\<bar>;
          total_potential_loss =
            (case potential_loss of
               None \<Rightarrow> current_loss
             | Some p \<Rightarrow> current_loss + \<bar>p\<bar>);
          within_limits = (total_potential_loss \<le> max_daily_loss)
      in (within_limits, rm1))"

definition check_trade_count :: "env \<Rightarrow> risk_manager \<Rightarrow> bool \<times> risk_manager" where
  "check_trade_count e rm =
     (let rm1 = ensure_current_date e rm;
          within_limits = (trades_today rm1 < max_trades_per_day rm1)
      in (within_limits, rm1))"

definition can_trade ::
  "env \<Rightarrow> risk_manager \<Rightarrow> real \<Rightarrow> real option \<Rightarrow> bool \<times> risk_manager" where
  "can_trade e rm account_equity potential_loss =
     (case check_trade_count e rm of
        (count_ok, rm1) \<Rightarrow>
          if \<not> count_ok then (False, rm1)
          else
            (case check_daily_loss e rm1 account_equity potential_loss of
               (loss_ok, rm2) \<Rightarrow>
                 if \<not> loss_ok then (False, rm2) else (True, rm2)))"

definition record_trade_result ::
  "env \<Rightarrow> risk_manager \<Rightarrow> real \<Rightarrow> string \<Rightarrow> int \<Rightarrow> real \<Rightarrow> real \<Rightarrow> risk_manager" where
  "record_trade_result e rm p smb qnt entry exit =
     (let rm1 = ensure_current_date e rm;
          trade_result = \<lparr>timestamp = now e, pnl = p, symbol = smb, quantity = qnt,
                          entry_price = entry, exit_price = exit\<rparr>;
          rm2 = rm1\<lparr>daily_pnl := daily_pnl rm1 + p,
                    trades_today := trades_today rm1 + 1,
                    trade_history := trade_history rm1 @ [trade_result]\<rparr>
      in save_daily_data e rm2)"

subsection \<open>Order manager: data\<close>

record breakout_orders =
  long_order_id :: "string option"
  short_order_id :: "string option"
  symbol_bo :: string
  long_entry_bo :: real
  short_entry_bo :: real
  stop_loss_points_bo :: real
  take_profit_points :: real
  position_size_bo :: int

record trade_execution =
  order_id :: string
  symbol_te :: string
  side :: string
  quantity_te :: int
  entry_price_te :: real
  timestamp_te :: datetime
  stop_loss :: real
  take_profit :: real

record order_params =
  symbol_op :: string
  qty :: int
  side_op :: string
  type_op :: string
  stop_price :: "real option"
  take_profit_op :: "real option"
  stop_loss_op :: "real option"
  time_in_force :: string
  limit_price :: "real option"

text \<open>
  The dictionary returned by \<^verbatim>\<open>AlpacaAPI.submit_order\<close>; it always has the key
  \<^verbatim>\<open>'id'\<close>, the only one \<^verbatim>\<open>place_breakout_orders\<close> reads.
\<close>

record order_info =
  id_oi :: string
  status_oi :: string

datatype alpaca_api_error = AlpacaAPIError

text \<open>
  \<^verbatim>\<open>OrderManagerError\<close> with its message; the text of the wrapped exception that
  the source appends after \<^verbatim>\<open>Failed to place breakout orders: \<close> is left out.
\<close>

datatype order_manager_error = OrderManagerError string

text \<open>
  The \<^verbatim>\<open>OrderManager\<close> object. The brokerage connector \<^verbatim>\<open>self.api\<close> is passed to
  the operations as the function \<open>submit_order\<close>; the monitoring thread is represented
  by the flag \<open>monitoring_active\<close> only, and what it does concurrently is outside
  the model.
\<close>

record order_manager =
  risk_manager_om :: risk_manager
  active_breakout_orders :: "string \<rightharpoonup> breakout_orders"
  executed_trades :: "trade_execution list"
  monitoring_active :: bool

subsection \<open>Order manager: placing the breakout orders\<close>

definition start_monitoring :: "order_manager \<Rightarrow> order_manager" where
  "start_monitoring om =
     (if monitoring_active om then om else om\<lparr>monitoring_active := True\<rparr>)"

text \<open>The two \<^verbatim>\<open>OrderParams\<close> objects built by \<^verbatim>\<open>place_breakout_orders\<close>.\<close>

definition long_order_params ::
  "string \<Rightarrow> int \<Rightarrow> real \<Rightarrow> real \<Rightarrow> real \<Rightarrow> order_params" where
  "long_order_params smb psize entry tp sl =
     \<lparr>symbol_op = smb, qty = psize, side_op = ''buy'', type_op = ''stop'',
      stop_price = Some entry, take_profit_op = Some tp, stop_loss_op = Some sl,
      time_in_force = ''day'', limit_price = None\<rparr>"

definition short_order_params ::
  "string \<Rightarrow> int \<Rightarrow> real \<Rightarrow> real \<Rightarrow> real \<Rightarrow> order_params" where
  "short_order_params smb psize entry tp sl =
     \<lparr>symbol_op = smb, qty = psize, side_op = ''sell'', type_op = ''stop'',
      stop_price = Some entry, take_profit_op = Some tp, stop_loss_op = Some sl,
      time_in_force = ''day'', limit_price = None\<rparr>"

text \<open>
  \<^verbatim>\<open>place_breakout_orders\<close>. The two \<^verbatim>\<open>OrderManagerError\<close>s raised inside the
  \<^verbatim>\<open>try\<close> block are caught by its own \<^verbatim>\<open>except Exception\<close> clause and raised
  again with the prefix \<^verbatim>\<open>Unexpected error: \<close>; \<^verbatim>\<open>RiskLimitExceeded\<close> and
  \<^verbatim>\<open>AlpacaAPIError\<close> are caught by the first clause. The object is returned in
  both outcomes, since \<^verbatim>\<open>can_trade\<close> may have rolled the ledger over.
\<close>

definition place_breakout_orders ::
  "env \<Rightarrow> (order_params \<Rightarrow> alpaca_api_error + order_info) \<Rightarrow> order_manager \<Rightarrow> string
     \<Rightarrow> real \<Rightarrow> real \<Rightarrow> real \<Rightarrow> real \<Rightarrow> real
     \<Rightarrow> (order_manager_error + breakout_orders) \<times> order_manager" where
  "place_breakout_orders e submit_order om smb lentry sentry slp tpp account_equity =
     (case can_trade e (risk_manager_om om) account_equity None of
        (ok, rm1) \<Rightarrow>
          (let om1 = om\<lparr>risk_manager_om := rm1\<rparr> in
           if \<not> ok
           then (Inl (OrderManagerError ''Unexpected error: Risk limits prevent new trades''),
                 om1)
           else
             (let long_stop_price = lentry - slp in
              case calculate_position_size rm1 account_equity lentry long_stop_price None of
                Inl err \<Rightarrow> (Inl (OrderManagerError ''Failed to place breakout orders''), om1)
              | Inr psize \<Rightarrow>
                  if psize \<le> 0
                  then (Inl (OrderManagerError
                          ''Unexpected error: Invalid position psize calculated''), om1)
                  else
                    (let lsl = lentry - slp;
                         ltp = lentry + tpp;
                         ssl = sentry + slp;
                         stp = sentry - tpp
                     in case submit_order (long_order_params smb psize lentry ltp lsl) of
                          Inl err \<Rightarrow>
                            (Inl (OrderManagerError ''Failed to place breakout orders''), om1)
                        | Inr long_order \<Rightarrow>
                            (case submit_order (short_order_params smb psize sentry stp ssl) of
                               Inl err \<Rightarrow>
                                 (Inl (OrderManagerError ''Failed to place breakout orders''),
                                  om1)
                             | Inr short_order \<Rightarrow>
                                 (let bo = \<lparr>long_order_id = Some (id_oi long_order),
                                            short_order_id = Some (id_oi short_order),
                                            symbol_bo = smb,
                                            long_entry_bo = lentry,
                                            short_entry_bo = sentry,
                                            stop_loss_points_bo = slp,
                                            take_profit_points = tpp,
                                            position_size_bo = psize\<rparr>;
                                      om2 = om1\<lparr>active_breakout_orders :=
                                              (active_breakout_orders om1)(smb \<mapsto> bo)\<rparr>;
                                      om3 = (if \<not> monitoring_active om2
                                             then start_monitoring om2 else om2)
                                  in (Inr bo, om3)))))))"

subsection \<open>Order manager: trade exit\<close>




text \<open>
  An order manager with nothing tracked, and two brokers in the manner of the test
  mocks: one accepts both legs, the other accepts the buy leg and fails on the sell leg.
\<close>

definition empty_order_manager :: order_manager where
  "empty_order_manager =
     \<lparr>risk_manager_om = fixture_risk_manager\<lparr>current_date := Some 7\<rparr>,
      active_breakout_orders = Map.empty,
      executed_trades = [],
      monitoring_active = False\<rparr>"

definition accepting_broker :: "order_params \<Rightarrow> alpaca_api_error + order_info" where
  "accepting_broker params =
     (if side_op params = ''buy''
      then Inr \<lparr>id_oi = ''long_order_123'', status_oi = ''accepted''\<rparr>
      else Inr \<lparr>id_oi = ''short_order_456'', status_oi = ''accepted''\<rparr>)"

definition sell_failing_broker :: "order_params \<Rightarrow> alpaca_api_error + order_info" where
  "sell_failing_broker params =
     (if side_op params = ''buy''
      then Inr \<lparr>id_oi = ''long_order_123'', status_oi = ''accepted''\<rparr>
      else Inl AlpacaAPIError)"

section \<open>NASDAQ breakout bot: verified properties\<close>

subsection \<open>Breakout calculator: range validation\<close>

text \<open>
  C2. \<^verbatim>\<open>calculate_breakout_levels\<close> raises exactly when the range size
  \<open>hi - lo\<close> is not in the half-open interval \<open>(min_range_size, max_range_size]\<close>:
  it raises at \<open>range = min_range_size\<close> and for every range above \<open>max_range_size\<close>,
  and it succeeds at \<open>range = max_range_size\<close> whenever that exceeds the minimum.
  The exception of the source is \<^verbatim>\<open>ValueError\<close>.
\<close>

theorem calculate_breakout_levels_raises_iff:
  "(calculate_breakout_levels config hi lo = Inl ValueError) =
     (\<not> (min_range_size config < hi - lo \<and> hi - lo \<le> max_range_size config))
   \<and> isl (calculate_breakout_levels config hi lo) =
     (\<not> (min_range_size config < hi - lo \<and> hi - lo \<le> max_range_size config))"
  by (simp add: calculate_breakout_levels_def is_valid_range_def Let_def)

subsection \<open>Breakout calculator: the levels\<close>



subsection \<open>Breakout calculator: stop distance\<close>

text \<open>
  C7. With \<open>use_dynamic_stops\<close> set and a range size supplied, the stop distance is
  \<open>max (min (range_size * dynamic_stop_multiplier) 50) 15\<close>; the bounds 15 and 50 are
  literals, so changing \<open>min_range_size\<close> and \<open>max_range_size\<close> changes nothing.
  With \<open>use_dynamic_stops\<close> unset the stop distance is \<open>stop_loss_points\<close>, whether or
  not a range size is supplied.
\<close>

theorem calculate_stop_distance_clamp:
  "(use_dynamic_stops config \<longrightarrow>
      calculate_stop_distance config (Some r)
        = max (min (r * dynamic_stop_multiplier config) 50) 15)
   \<and> (\<not> use_dynamic_stops config \<longrightarrow>
      calculate_stop_distance config rs = stop_loss_points config)
   \<and> calculate_stop_distance (config\<lparr>min_range_size := a, max_range_size := b\<rparr>) rs
        = calculate_stop_distance config rs"
  by (simp add: calculate_stop_distance_def Let_def split: option.split)

text \<open>
  The examples of the specification: multiplier \<open>1.5\<close>, range 60 gives 90, clamped to
  50; range 5 gives 7.5, clamped to 15; and the fixed stop of the default configuration.
\<close>

theorem calculate_stop_distance_clamp_witness:
  "use_dynamic_stops (default_strategy_config\<lparr>use_dynamic_stops := True\<rparr>)
   \<and> calculate_stop_distance (default_strategy_config\<lparr>use_dynamic_stops := True\<rparr>) (Some 60) = 50
   \<and> calculate_stop_distance (default_strategy_config\<lparr>use_dynamic_stops := True\<rparr>) (Some 5) = 15
   \<and> \<not> use_dynamic_stops default_strategy_config
   \<and> calculate_stop_distance default_strategy_config (Some 60) = 25"
  using calculate_stop_distance_clamp
          [of "default_strategy_config\<lparr>use_dynamic_stops := True\<rparr>" 60 None 0 0]
        calculate_stop_distance_clamp
          [of "default_strategy_config\<lparr>use_dynamic_stops := True\<rparr>" 5 None 0 0]
        calculate_stop_distance_clamp [of default_strategy_config 0 "Some 60" 0 0]
  by (simp add: default_strategy_config_def)

subsection \<open>Risk manager: position sizing, results\<close>









subsection \<open>Risk manager: facts about the rollover\<close>

lemma save_daily_data_fields [simp]:
  "max_daily_loss_percent (save_daily_data e rm) = max_daily_loss_percent rm"
  "max_trades_per_day (save_daily_data e rm) = max_trades_per_day rm"
  "default_risk_percent (save_daily_data e rm) = default_risk_percent rm"
  "point_value (save_daily_data e rm) = point_value rm"
  "current_date (save_daily_data e rm) = current_date rm"
  "daily_pnl (save_daily_data e rm) = daily_pnl rm"
  "trades_today (save_daily_data e rm) = trades_today rm"
  "trade_history (save_daily_data e rm) = trade_history rm"
  by (simp_all add: save_daily_data_def write_data_file_def Let_def)

lemma reset_daily_limits_fields [simp]:
  "max_daily_loss_percent (reset_daily_limits e rm) = max_daily_loss_percent rm"
  "max_trades_per_day (reset_daily_limits e rm) = max_trades_per_day rm"
  "default_risk_percent (reset_daily_limits e rm) = default_risk_percent rm"
  "point_value (reset_daily_limits e rm) = point_value rm"
  "current_date (reset_daily_limits e rm) = Some (today e)"
  "daily_pnl (reset_daily_limits e rm) = 0"
  "trades_today (reset_daily_limits e rm) = 0"
  by (simp_all add: reset_daily_limits_def Let_def)

lemma ensure_current_date_config [simp]:
  "max_daily_loss_percent (ensure_current_date e rm) = max_daily_loss_percent rm"
  "max_trades_per_day (ensure_current_date e rm) = max_trades_per_day rm"
  "default_risk_percent (ensure_current_date e rm) = default_risk_percent rm"
  "point_value (ensure_current_date e rm) = point_value rm"
  "current_date (ensure_current_date e rm) = Some (today e)"
  by (simp_all add: ensure_current_date_def)

lemma ensure_current_date_fresh:
  "current_date rm = Some (today e) \<Longrightarrow> ensure_current_date e rm = rm"
  by (simp add: ensure_current_date_def)

lemma ensure_current_date_stale:
  "current_date rm \<noteq> Some (today e) \<Longrightarrow>
     daily_pnl (ensure_current_date e rm) = 0 \<and> trades_today (ensure_current_date e rm) = 0"
  by (simp add: ensure_current_date_def)

lemma ensure_current_date_idem [simp]:
  "ensure_current_date e (ensure_current_date e rm) = ensure_current_date e rm"
  by (rule ensure_current_date_fresh) simp




lemma check_trade_count_eq:
  "check_trade_count e rm =
     (trades_today (ensure_current_date e rm) < max_trades_per_day rm,
      ensure_current_date e rm)"
  by (simp add: check_trade_count_def Let_def)

lemma check_daily_loss_eq:
  "check_daily_loss e rm account_equity potential_loss =
     (\<bar>min 0 (daily_pnl (ensure_current_date e rm))\<bar>
        + (case potential_loss of None \<Rightarrow> 0 | Some p \<Rightarrow> \<bar>p\<bar>)
        \<le> account_equity * max_daily_loss_percent rm,
      ensure_current_date e rm)"
  by (simp add: check_daily_loss_def Let_def split: option.split)

subsection \<open>Risk manager: the trading gate\<close>

text \<open>
  C5. \<^verbatim>\<open>can_trade(equity, potential_loss)\<close> returns true if and only if
  \<open>trades_today < max_trades_per_day\<close> (strict) and
  \<open>|min 0 daily_pnl| + |potential_loss| \<le> equity * max_daily_loss_percent\<close>
  (inclusive; no term when \<open>potential_loss\<close> is absent), where the counters are those
  of the current day: the ones in memory when the ledger's date is today's, and the
  rolled-over ones otherwise. A positive \<open>daily_pnl\<close> contributes 0 to the loss term.
  The trade count is checked first: when it fails the loss check is not run.
\<close>

theorem can_trade_iff:
  "fst (can_trade e rm account_equity potential_loss) =
     (trades_today (ensure_current_date e rm) < max_trades_per_day rm
      \<and> \<bar>min 0 (daily_pnl (ensure_current_date e rm))\<bar>
          + (case potential_loss of None \<Rightarrow> 0 | Some p \<Rightarrow> \<bar>p\<bar>)
          \<le> account_equity * max_daily_loss_percent rm)
   \<and> (current_date rm = Some (today e) \<longrightarrow>
        fst (can_trade e rm account_equity potential_loss) =
          (trades_today rm < max_trades_per_day rm
           \<and> \<bar>min 0 (daily_pnl rm)\<bar>
               + (case potential_loss of None \<Rightarrow> 0 | Some p \<Rightarrow> \<bar>p\<bar>)
               \<le> account_equity * max_daily_loss_percent rm))
   \<and> (\<not> fst (check_trade_count e rm) \<longrightarrow>
        can_trade e rm account_equity potential_loss = (False, snd (check_trade_count e rm)))
   \<and> (0 \<le> daily_pnl (ensure_current_date e rm) \<longrightarrow>
        \<bar>min 0 (daily_pnl (ensure_current_date e rm))\<bar> = 0)"
proof -
  have general: "fst (can_trade e rm account_equity potential_loss) =
     (trades_today (ensure_current_date e rm) < max_trades_per_day rm
      \<and> \<bar>min 0 (daily_pnl (ensure_current_date e rm))\<bar>
          + (case potential_loss of None \<Rightarrow> 0 | Some p \<Rightarrow> \<bar>p\<bar>)
          \<le> account_equity * max_daily_loss_percent rm)"
    by (simp add: can_trade_def check_trade_count_eq check_daily_loss_eq)
  have first: "\<not> fst (check_trade_count e rm) \<Longrightarrow>
      can_trade e rm account_equity potential_loss = (False, snd (check_trade_count e rm))"
    by (simp add: can_trade_def check_trade_count_eq)
  from general first show ?thesis
    by (auto simp: ensure_current_date_fresh)
qed

text \<open>
  The boundary tests of the repository at equity 100000 (limit 2000, at most 2
  trades): a day at \<open>-800\<close> with a potential loss of 1200 is exactly at the limit and
  passes, 1201 fails; a day at \<open>+800\<close> does not raise the allowance (2001 fails);
  two trades already taken fail whatever the loss.
\<close>

theorem can_trade_iff_witness:
  "current_date (fixture_risk_manager\<lparr>current_date := Some 7, daily_pnl := - 800\<rparr>)
      = Some (today \<lparr>today = 7, now = 0, disk_writable = True\<rparr>)
   \<and> fst (can_trade \<lparr>today = 7, now = 0, disk_writable = True\<rparr>
        (fixture_risk_manager\<lparr>current_date := Some 7, daily_pnl := - 800\<rparr>)
        100000 (Some 1200))
   \<and> \<not> fst (can_trade \<lparr>today = 7, now = 0, disk_writable = True\<rparr>
        (fixture_risk_manager\<lparr>current_date := Some 7, daily_pnl := - 800\<rparr>)
        100000 (Some 1201))
   \<and> \<not> fst (can_trade \<lparr>today = 7, now = 0, disk_writable = True\<rparr>
        (fixture_risk_manager\<lparr>current_date := Some 7, daily_pnl := 800\<rparr>)
        100000 (Some 2001))
   \<and> \<not> fst (check_trade_count \<lparr>today = 7, now = 0, disk_writable = True\<rparr>
        (fixture_risk_manager\<lparr>current_date := Some 7, trades_today := 2\<rparr>))
   \<and> \<not> fst (can_trade \<lparr>today = 7, now = 0, disk_writable = True\<rparr>
        (fixture_risk_manager\<lparr>current_date := Some 7, trades_today := 2\<rparr>)
        100000 None)"
  using can_trade_iff [of "\<lparr>today = 7, now = 0, disk_writable = True\<rparr>"
          "fixture_risk_manager\<lparr>current_date := Some 7, daily_pnl := - 800\<rparr>"
          100000 "Some 1200"]
        can_trade_iff [of "\<lparr>today = 7, now = 0, disk_writable = True\<rparr>"
          "fixture_risk_manager\<lparr>current_date := Some 7, daily_pnl := - 800\<rparr>"
          100000 "Some 1201"]
        can_trade_iff [of "\<lparr>today = 7, now = 0, disk_writable = True\<rparr>"
          "fixture_risk_manager\<lparr>current_date := Some 7, daily_pnl := 800\<rparr>"
          100000 "Some 2001"]
        can_trade_iff [of "\<lparr>today = 7, now = 0, disk_writable = True\<rparr>"
          "fixture_risk_manager\<lparr>current_date := Some 7, trades_today := 2\<rparr>"
          100000 None]
  by (simp add: fixture_risk_manager_def check_trade_count_eq ensure_current_date_def)

subsection \<open>Risk manager: day rollover\<close>

text \<open>
  C8. A ledger constructed while the data file carries a \<open>current_date\<close> other than
  today's starts with \<open>daily_pnl = 0\<close> and \<open>trades_today = 0\<close> (and an empty
  history and no date), whatever counters the file holds. Later, on a ledger whose
  in-memory date is not today's, each limit check (\<open>check_trade_count\<close>,
  \<open>check_daily_loss\<close>, \<open>can_trade\<close>) leaves the counters at zero, and
  \<open>record_trade_result\<close> starts from zero: afterwards \<open>daily_pnl\<close> is the recorded
  profit or loss alone and \<open>trades_today\<close> is 1.
\<close>

theorem day_rollover:
  "(current_date_json d = Some saved_date \<and> saved_date \<noteq> today e \<longrightarrow>
      daily_pnl (risk_manager_init e (Json d) mdlp mtpd drp pv) = 0
      \<and> trades_today (risk_manager_init e (Json d) mdlp mtpd drp pv) = 0
      \<and> trade_history (risk_manager_init e (Json d) mdlp mtpd drp pv) = []
      \<and> current_date (risk_manager_init e (Json d) mdlp mtpd drp pv) = None)
   \<and> (current_date rm \<noteq> Some (today e) \<longrightarrow>
      daily_pnl (snd (check_trade_count e rm)) = 0
      \<and> trades_today (snd (check_trade_count e rm)) = 0
      \<and> daily_pnl (snd (check_daily_loss e rm account_equity potential_loss)) = 0
      \<and> trades_today (snd (check_daily_loss e rm account_equity potential_loss)) = 0
      \<and> daily_pnl (snd (can_trade e rm account_equity potential_loss)) = 0
      \<and> trades_today (snd (can_trade e rm account_equity potential_loss)) = 0
      \<and> current_date (snd (can_trade e rm account_equity potential_loss)) = Some (today e)
      \<and> daily_pnl (record_trade_result e rm p smb qnt entry exit) = p
      \<and> trades_today (record_trade_result e rm p smb qnt entry exit) = 1)"
proof -
  have init: "current_date_json d = Some saved_date \<Longrightarrow> saved_date \<noteq> today e \<Longrightarrow>
      risk_manager_init e (Json d) mdlp mtpd drp pv =
        \<lparr>max_daily_loss_percent = mdlp, max_trades_per_day = mtpd,
         default_risk_percent = drp, point_value = pv,
         current_date = None, daily_pnl = 0, trades_today = 0, trade_history = [],
         data_file = Json d, error_log = []\<rparr>"
    by (simp add: risk_manager_init_def load_daily_data_def)
  have can: "snd (can_trade e rm account_equity potential_loss) = ensure_current_date e rm"
    by (simp add: can_trade_def check_trade_count_eq check_daily_loss_eq)
  have stale: "current_date rm \<noteq> Some (today e) \<Longrightarrow>
      daily_pnl (ensure_current_date e rm) = 0 \<and> trades_today (ensure_current_date e rm) = 0"
    by (rule ensure_current_date_stale)
  have rec: "daily_pnl (record_trade_result e rm p smb qnt entry exit)
        = daily_pnl (ensure_current_date e rm) + p
      \<and> trades_today (record_trade_result e rm p smb qnt entry exit)
        = trades_today (ensure_current_date e rm) + 1"
    by (simp add: record_trade_result_def Let_def)
  show ?thesis
    using init can stale rec
    by (simp add: check_trade_count_eq check_daily_loss_eq)
qed

text \<open>
  A file of day 6 holding a loss of 1500 and 2 trades, read on day 7; and a ledger
  still holding those counters in memory on day 7.
\<close>

theorem day_rollover_witness:
  "current_date_json \<lparr>current_date_json = Some 6, daily_pnl_json = Some (- 1500),
        trades_today_json = Some 2, trade_history_json = Some []\<rparr> = Some 6
   \<and> (6 :: int) \<noteq> today \<lparr>today = 7, now = 0, disk_writable = True\<rparr>
   \<and> daily_pnl (risk_manager_init \<lparr>today = 7, now = 0, disk_writable = True\<rparr>
        (Json \<lparr>current_date_json = Some 6, daily_pnl_json = Some (- 1500),
               trades_today_json = Some 2, trade_history_json = Some []\<rparr>)
        (2 / 100) 2 (5 / 1000) 5) = 0
   \<and> trades_today (risk_manager_init \<lparr>today = 7, now = 0, disk_writable = True\<rparr>
        (Json \<lparr>current_date_json = Some 6, daily_pnl_json = Some (- 1500),
               trades_today_json = Some 2, trade_history_json = Some []\<rparr>)
        (2 / 100) 2 (5 / 1000) 5) = 0
   \<and> current_date (fixture_risk_manager
        \<lparr>current_date := Some 6, daily_pnl := - 1500, trades_today := 2\<rparr>)
       \<noteq> Some (today \<lparr>today = 7, now = 0, disk_writable = True\<rparr>)
   \<and> can_trade \<lparr>today = 7, now = 0, disk_writable = True\<rparr>
        (fixture_risk_manager\<lparr>current_date := Some 6, daily_pnl := - 1500, trades_today := 2\<rparr>)
        100000 None
       = (True, fixture_risk_manager
            \<lparr>current_date := Some 7,
             data_file := Json \<lparr>current_date_json = Some 7, daily_pnl_json = Some 0,
               trades_today_json = Some 0, trade_history_json = Some []\<rparr>\<rparr>)
   \<and> trades_today (record_trade_result \<lparr>today = 7, now = 0, disk_writable = True\<rparr>
        (fixture_risk_manager\<lparr>current_date := Some 6, daily_pnl := - 1500, trades_today := 2\<rparr>)
        200 ''MNQ'' 4 15035 15085) = 1
   \<and> daily_pnl (record_trade_result \<lparr>today = 7, now = 0, disk_writable = True\<rparr>
        (fixture_risk_manager\<lparr>current_date := Some 6, daily_pnl := - 1500, trades_today := 2\<rparr>)
        200 ''MNQ'' 4 15035 15085) = 200"
proof -
  let ?e = "\<lparr>today = 7, now = 0, disk_writable = True\<rparr>"
  let ?d = "\<lparr>current_date_json = Some 6, daily_pnl_json = Some (- 1500),
        trades_today_json = Some 2, trade_history_json = Some []\<rparr>"
  let ?rm = "fixture_risk_manager
        \<lparr>current_date := Some 6, daily_pnl := - 1500, trades_today := 2\<rparr>"
  have stored: "current_date_json ?d = Some 6 \<and> (6 :: int) \<noteq> today ?e"
    by simp
  have mem: "current_date ?rm \<noteq> Some (today ?e)"
    by (simp add: fixture_risk_manager_def)
  have run: "can_trade ?e ?rm 100000 None
       = (True, fixture_risk_manager
            \<lparr>current_date := Some 7,
             data_file := Json \<lparr>current_date_json = Some 7, daily_pnl_json = Some 0,
               trades_today_json = Some 0, trade_history_json = Some []\<rparr>\<rparr>)"
    by (simp add: can_trade_def check_trade_count_def check_daily_loss_def
        ensure_current_date_def reset_daily_limits_def save_daily_data_def
        write_data_file_def fixture_risk_manager_def Let_def)
  from day_rollover [of ?d 6 ?e "2 / 100" 2 "5 / 1000" 5 ?rm 100000 None 200 "''MNQ''" 4
      15035 15085] stored mem run
  show ?thesis by simp
qed

subsection \<open>Risk manager: recording a trade\<close>



subsection \<open>Order manager: trade exit, results\<close>




subsection \<open>Order manager: placing the breakout orders, results\<close>

lemma can_trade_snd:
  "snd (can_trade e rm account_equity potential_loss) = ensure_current_date e rm"
  by (simp add: can_trade_def check_trade_count_eq check_daily_loss_eq)

text \<open>
  C9. Placement is all or nothing for the tracking table. The call raises
  \<^verbatim>\<open>OrderManagerError\<close>, the only error of its result type, when \<^verbatim>\<open>can_trade\<close> is
  false, when sizing raises, when the size is not positive, and when either submission
  fails; whenever it raises, \<open>active_breakout_orders\<close> is what it was. When it returns
  a pair, the table is the old one with the symbol mapped to exactly that pair, and the
  pair holds the ids returned by the two submissions.
\<close>

theorem place_breakout_orders_all_or_nothing:
  "(let res = place_breakout_orders e submit_order om smb lentry sentry slp tpp
                 account_equity;
        rm1 = snd (can_trade e (risk_manager_om om) account_equity None);
        sized = calculate_position_size rm1 account_equity lentry (lentry - slp) None
    in (isl (fst res) \<longrightarrow> active_breakout_orders (snd res) = active_breakout_orders om)
       \<and> (\<not> fst (can_trade e (risk_manager_om om) account_equity None) \<longrightarrow> isl (fst res))
       \<and> (isl sized \<longrightarrow> isl (fst res))
       \<and> (\<forall>psize. sized = Inr psize \<and>
             (psize \<le> 0
              \<or> isl (submit_order
                    (long_order_params smb psize lentry (lentry + tpp) (lentry - slp)))
              \<or> isl (submit_order
                    (short_order_params smb psize sentry (sentry - tpp) (sentry + slp))))
             \<longrightarrow> isl (fst res))
       \<and> (\<forall>bo. fst res = Inr bo \<longrightarrow>
             active_breakout_orders (snd res) = (active_breakout_orders om)(smb \<mapsto> bo)
             \<and> symbol_bo bo = smb
             \<and> (\<exists>psize long_order short_order.
                   sized = Inr psize \<and> 0 < psize \<and> position_size_bo bo = psize
                   \<and> submit_order
                        (long_order_params smb psize lentry (lentry + tpp) (lentry - slp))
                      = Inr long_order
                   \<and> submit_order
                        (short_order_params smb psize sentry (sentry - tpp) (sentry + slp))
                      = Inr short_order
                   \<and> long_order_id bo = Some (id_oi long_order)
                   \<and> short_order_id bo = Some (id_oi short_order))))"
proof -
  obtain ok rm1 where ct: "can_trade e (risk_manager_om om) account_equity None = (ok, rm1)"
    by (cases "can_trade e (risk_manager_om om) account_equity None")
  show ?thesis
  proof (cases ok)
    case False
    with ct show ?thesis
      by (simp add: place_breakout_orders_def Let_def)
  next
    case True
    note ok = this
    show ?thesis
    proof (cases "calculate_position_size rm1 account_equity lentry (lentry - slp) None")
      case (Inl err)
      with ct ok show ?thesis
        by (simp add: place_breakout_orders_def Let_def)
    next
      case (Inr psize)
      note sz = this
      show ?thesis
      proof (cases "psize \<le> 0")
        case True
        with ct ok sz show ?thesis
          by (simp add: place_breakout_orders_def Let_def)
      next
        case False
        note pos = this
        show ?thesis
        proof (cases "submit_order
            (long_order_params smb psize lentry (lentry + tpp) (lentry - slp))")
          case (Inl err)
          with ct ok sz pos show ?thesis
            by (simp add: place_breakout_orders_def Let_def)
        next
          case (Inr long_order)
          note lo = this
          show ?thesis
          proof (cases "submit_order
              (short_order_params smb psize sentry (sentry - tpp) (sentry + slp))")
            case (Inl err)
            with ct ok sz pos lo show ?thesis
              by (simp add: place_breakout_orders_def Let_def)
          next
            case (Inr short_order)
            with ct ok sz pos lo show ?thesis
              by (simp add: place_breakout_orders_def Let_def start_monitoring_def)
          qed
        qed
      qed
    qed
  qed
qed

text \<open>
  The placement of the repository's test (entries 15035 and 14965, stop 25, target 50,
  equity 100000, so 4 contracts): with the accepting broker one pair is tracked for
  \<^verbatim>\<open>MNQ\<close> with both ids; with the broker that fails on the sell leg, and with a
  ledger that already counts two trades, the call raises and nothing is tracked.
\<close>

theorem place_breakout_orders_all_or_nothing_witness:
  "place_breakout_orders \<lparr>today = 7, now = 0, disk_writable = True\<rparr> accepting_broker
       empty_order_manager ''MNQ'' 15035 14965 25 50 100000
     = (Inr \<lparr>long_order_id = Some ''long_order_123'',
             short_order_id = Some ''short_order_456'', symbol_bo = ''MNQ'',
             long_entry_bo = 15035, short_entry_bo = 14965, stop_loss_points_bo = 25,
             take_profit_points = 50, position_size_bo = 4\<rparr>,
        empty_order_manager
          \<lparr>active_breakout_orders :=
             [''MNQ'' \<mapsto> \<lparr>long_order_id = Some ''long_order_123'',
               short_order_id = Some ''short_order_456'', symbol_bo = ''MNQ'',
               long_entry_bo = 15035, short_entry_bo = 14965, stop_loss_points_bo = 25,
               take_profit_points = 50, position_size_bo = 4\<rparr>],
           monitoring_active := True\<rparr>)
   \<and> isl (sell_failing_broker (short_order_params ''MNQ'' 4 14965 14915 14990))
   \<and> place_breakout_orders \<lparr>today = 7, now = 0, disk_writable = True\<rparr> sell_failing_broker
       empty_order_manager ''MNQ'' 15035 14965 25 50 100000
     = (Inl (OrderManagerError ''Failed to place breakout orders''), empty_order_manager)
   \<and> \<not> fst (can_trade \<lparr>today = 7, now = 0, disk_writable = True\<rparr>
        (risk_manager_om (empty_order_manager
           \<lparr>risk_manager_om := fixture_risk_manager
              \<lparr>current_date := Some 7, trades_today := 2\<rparr>\<rparr>)) 100000 None)
   \<and> isl (fst (place_breakout_orders \<lparr>today = 7, now = 0, disk_writable = True\<rparr>
        accepting_broker
        (empty_order_manager
           \<lparr>risk_manager_om := fixture_risk_manager
              \<lparr>current_date := Some 7, trades_today := 2\<rparr>\<rparr>)
        ''MNQ'' 15035 14965 25 50 100000))
   \<and> active_breakout_orders (snd (place_breakout_orders
        \<lparr>today = 7, now = 0, disk_writable = True\<rparr> accepting_broker
        (empty_order_manager
           \<lparr>risk_manager_om := fixture_risk_manager
              \<lparr>current_date := Some 7, trades_today := 2\<rparr>\<rparr>)
        ''MNQ'' 15035 14965 25 50 100000)) = Map.empty"
proof -
  let ?e = "\<lparr>today = 7, now = 0, disk_writable = True\<rparr>"
  let ?full = "empty_order_manager
           \<lparr>risk_manager_om := fixture_risk_manager
              \<lparr>current_date := Some 7, trades_today := 2\<rparr>\<rparr>"
  have ct: "can_trade ?e (fixture_risk_manager\<lparr>current_date := Some 7\<rparr>) 100000 None
      = (True, fixture_risk_manager\<lparr>current_date := Some 7\<rparr>)"
    by (simp add: can_trade_def check_trade_count_def check_daily_loss_def
        ensure_current_date_def fixture_risk_manager_def Let_def)
  have sz: "calculate_position_size (fixture_risk_manager\<lparr>current_date := Some 7\<rparr>)
      100000 15035 (15035 - 25) None = Inr 4"
    by (simp add: calculate_position_size_def position_size_try_def py_truediv_def
        py_int_def fixture_risk_manager_def Let_def)
  have placed: "place_breakout_orders ?e accepting_broker
       empty_order_manager ''MNQ'' 15035 14965 25 50 100000
     = (Inr \<lparr>long_order_id = Some ''long_order_123'',
             short_order_id = Some ''short_order_456'', symbol_bo = ''MNQ'',
             long_entry_bo = 15035, short_entry_bo = 14965, stop_loss_points_bo = 25,
             take_profit_points = 50, position_size_bo = 4\<rparr>,
        empty_order_manager
          \<lparr>active_breakout_orders :=
             [''MNQ'' \<mapsto> \<lparr>long_order_id = Some ''long_order_123'',
               short_order_id = Some ''short_order_456'', symbol_bo = ''MNQ'',
               long_entry_bo = 15035, short_entry_bo = 14965, stop_loss_points_bo = 25,
               take_profit_points = 50, position_size_bo = 4\<rparr>],
           monitoring_active := True\<rparr>)"
    using ct sz
    by (simp add: place_breakout_orders_def empty_order_manager_def accepting_broker_def
        long_order_params_def short_order_params_def start_monitoring_def Let_def)
  have leg: "isl (sell_failing_broker (short_order_params ''MNQ'' 4 14965 14915 14990))"
    by (simp add: sell_failing_broker_def short_order_params_def)
  have failed: "place_breakout_orders ?e sell_failing_broker
       empty_order_manager ''MNQ'' 15035 14965 25 50 100000
     = (Inl (OrderManagerError ''Failed to place breakout orders''), empty_order_manager)"
    using ct sz
    by (simp add: place_breakout_orders_def empty_order_manager_def sell_failing_broker_def
        long_order_params_def short_order_params_def Let_def)
  have blocked: "\<not> fst (can_trade ?e (risk_manager_om ?full) 100000 None)"
    by (simp add: can_trade_def check_trade_count_def ensure_current_date_def
        empty_order_manager_def fixture_risk_manager_def Let_def)
  have start: "active_breakout_orders ?full = Map.empty"
    by (simp add: empty_order_manager_def)
  from place_breakout_orders_all_or_nothing
         [of ?e accepting_broker ?full "''MNQ''" 15035 14965 25 50 100000] blocked start
  have "isl (fst (place_breakout_orders ?e accepting_broker ?full
            ''MNQ'' 15035 14965 25 50 100000))
      \<and> active_breakout_orders (snd (place_breakout_orders ?e accepting_broker ?full
            ''MNQ'' 15035 14965 25 50 100000)) = Map.empty"
    by (simp add: Let_def)
  with placed leg failed blocked show ?thesis
    by simp
qed

end
